theory Spec2Isabelle
  imports Main "HOL-Library.Word"
begin

unbundle bit_operations_syntax

section \<open>Data of nwm.c\<close>

text \<open>
  The embedding follows \<^verbatim>\<open>nwm/nwm.c\<close>. The header \<^verbatim>\<open>nwm.h\<close> and the helper file
  \<^verbatim>\<open>x11_misc.cc\<close> are not among the sources, so the struct fields are the ones the
  code assigns, and a helper of \<^verbatim>\<open>x11_misc.cc\<close> is either a call logged in the
  trace (\<open>grabButtons\<close>, \<open>SendEvent\<close>) or a value the X server snapshot supplies
  (\<open>gettextprop\<close>, \<open>getrootptr\<close>, \<open>updatenumlockmask\<close>).

  XIDs (\<open>Window\<close>, \<open>Atom\<close>, \<open>KeySym\<close>) are \<open>unsigned long\<close> and the words of a
  client message are \<open>long\<close>: 64 bits on an LP64 platform. Modifier masks are
  \<open>unsigned int\<close>. A C \<open>int\<close> that the code only copies or counts within the range of
  a monitor index is an \<open>int\<close>; no operation of the modelled functions can overflow it.
  Calls of \<open>fprintf\<close> are logging and are left out.
\<close>

type_synonym Window = "64 word"
type_synonym Atom = "64 word"
type_synonym KeySym = "64 word"
type_synonym modmask = "32 word"

text \<open>Constants of \<^verbatim>\<open>X.h\<close> and \<^verbatim>\<open>Xatom.h\<close>, with the values these headers give them.\<close>

definition None_xid :: Window where "None_xid = 0"
definition LockMask :: modmask where "LockMask = 2"
definition AnyModifier :: modmask where "AnyModifier = 32768"
definition AnyKey :: int where "AnyKey = 0"
definition AnyButton :: int where "AnyButton = 0"
definition XA_ATOM :: Atom where "XA_ATOM = 4"
definition XA_WM_NAME :: Atom where "XA_WM_NAME = 39"

datatype event_mask_bit =
  EnterWindowMask | FocusChangeMask | PropertyChangeMask | StructureNotifyMask

datatype map_state = IsUnmapped | IsUnviewable | IsViewable

datatype revert_to = RevertToPointerRoot
datatype time_stamp = CurrentTime
datatype grab_mode = GrabModeSync | GrabModeAsync
datatype prop_mode = PropModeReplace

record XWindowAttributes =
  wa_x :: int
  wa_y :: int
  wa_width :: int
  wa_height :: int
  wa_border_width :: int
  wa_map_state :: map_state
  wa_override_redirect :: bool

record XWindowChanges =
  wc_x :: int
  wc_y :: int
  wc_width :: int
  wc_height :: int
  wc_border_width :: int
  wc_sibling :: Window
  wc_stack_mode :: int

text \<open>A synthetic \<open>ConfigureNotify\<close>: the fields the code fills in before \<open>XSendEvent\<close>.\<close>

record XConfigureEvent =
  ce_event :: Window
  ce_window :: Window
  ce_x :: int
  ce_y :: int
  ce_width :: int
  ce_height :: int
  ce_border_width :: int
  ce_above :: Window
  ce_override_redirect :: bool

record XineramaScreenInfo =
  screen_number :: int
  x_org :: int
  y_org :: int
  si_width :: int
  si_height :: int

subsection \<open>Events for the controller\<close>

text \<open>
  The payload structs are locals that the code fills field by field. A field that a
  function never assigns holds whatever the stack held: it is \<open>None\<close> here, and
  \<open>Some v\<close> once the code has stored \<open>v\<close>.
\<close>

datatype callback_map =
    onAddMonitor | onUpdateMonitor | onRemoveMonitor
  | onAddWindow | onUpdateWindow | onRemoveWindow
  | onRearrange | onEnterNotify | onFullscreen

datatype nwm_type = nwm_Window | nwm_Windowtitle | nwm_Monitor | nwm_EnterNotify

record nwm_window =
  w_type :: nwm_type
  w_id :: Window
  w_x :: "int option"
  w_y :: "int option"
  w_height :: "int option"
  w_width :: "int option"
  w_isfloating :: "bool option"

record nwm_window_title =
  t_type :: nwm_type
  t_id :: Window
  t_title :: "string option"
  t_instance :: "string option"
  t_klass :: "string option"

record nwm_window_fullscreen =
  f_type :: nwm_type
  f_id :: Window
  f_fullscreen :: int

record nwm_monitor =
  m_type :: nwm_type
  m_id :: int
  m_x :: "int option"
  m_y :: "int option"
  m_width :: "int option"
  m_height :: "int option"

datatype nwm_event =
    NULL
  | Ev_window nwm_window
  | Ev_window_title nwm_window_title
  | Ev_window_fullscreen nwm_window_fullscreen
  | Ev_monitor nwm_monitor

subsection \<open>The trace of a call\<close>

text \<open>
  What a function does to the outside is the list of its calls, in program order: a call
  of \<open>nwm_emit\<close> (whose body is empty in the source: an emitted event is this call), an
  Xlib request, or a call of a helper of \<^verbatim>\<open>x11_misc.cc\<close>.
\<close>

datatype effect =
    Emit callback_map nwm_event
  | XMoveWindow Window int int
  | XResizeWindow Window int int
  | XMoveResizeWindow Window int int int int
  | XConfigureWindow Window int XWindowChanges
  | XSendEvent Window bool "event_mask_bit list" XConfigureEvent
  | XSelectInput Window "event_mask_bit list"
  | XRaiseWindow Window
  | XMapWindow Window
  | XSetInputFocus Window revert_to time_stamp
  | XInternAtom string bool
  | XChangeProperty Window Atom Atom int prop_mode "Atom list"
  | XUngrabButton int modmask Window
  | XUngrabKey int modmask Window
  | XGrabKey int modmask Window bool grab_mode grab_mode
  | XGrabServer
  | XUngrabServer
  | XSync bool
  | XFlush
  | grabButtons Window bool
  | SendEvent Window Atom

record Key =
  keysym :: KeySym
  key_mod :: modmask

text \<open>The static \<open>nwm\<close> struct; \<open>keys\<close> is the linked list, head first.\<close>

record nwm_state =
  root :: Window
  screen_width :: int
  screen_height :: int
  total_monitors :: int
  keys :: "Key list"
  numlockmask :: modmask
  selected :: Window

subsection \<open>What the X server answers\<close>

text \<open>
  A handler runs to completion on one snapshot of the server. Each query of the code is a
  field: \<open>None\<close> is a zero status (the attributes cannot be read, the hint is absent,
  the tree cannot be queried).
  \<^item> \<open>XGetTransientForHint\<close>: \<open>Some t\<close> when the hint is set, \<open>t\<close> being the window stored
    in the out parameter.
  \<^item> \<open>XGetClassHint\<close>: \<open>Some (res_name, res_class)\<close>, each pointer possibly \<open>NULL\<close>.
  \<^item> \<open>gettextprop\<close> (of \<^verbatim>\<open>x11_misc.cc\<close>): its status and the text it leaves in the
    caller's buffer.
  \<^item> \<open>atom_of\<close>: the atom \<open>XInternAtom\<close> returns for a name.
  \<^item> \<open>XineramaQueryScreens\<close>: the array the extension returns, its length being the
    count stored in \<open>nn\<close>.
  \<^item> \<open>getrootptr\<close> (of \<^verbatim>\<open>x11_misc.cc\<close>): the pointer position when the pointer is
    on the root's screen.
  \<^item> \<open>updatenumlockmask\<close> (of \<^verbatim>\<open>x11_misc.cc\<close>): the mask it computes from the current
    modifier mapping.
  \<^item> \<open>malloc_ok n\<close>: whether \<open>malloc\<close> of \<open>n\<close> screen records returns a block.
\<close>

record xserver =
  XGetWindowAttributes :: "Window \<Rightarrow> XWindowAttributes option"
  XGetTransientForHint :: "Window \<Rightarrow> Window option"
  XGetClassHint :: "Window \<Rightarrow> (string option \<times> string option) option"
  gettextprop :: "Window \<Rightarrow> Atom \<Rightarrow> bool \<times> string"
  atom_of :: "string \<Rightarrow> Atom"
  XQueryTree :: "Window \<Rightarrow> Window list option"
  XineramaIsActive :: bool
  XineramaQueryScreens :: "XineramaScreenInfo list"
  getrootptr :: "Window \<Rightarrow> (int \<times> int) option"
  XKeysymToKeycode :: "KeySym \<Rightarrow> 8 word"
  updatenumlockmask :: modmask
  malloc_ok :: "nat \<Rightarrow> bool"

record XMapRequestEvent =
  mr_window :: Window

text \<open>\<open>cm_data_l i\<close> is \<open>data.l[i]\<close>, for \<open>i\<close> from 0 to 4.\<close>

record XClientMessageEvent =
  cm_window :: Window
  cm_message_type :: Atom
  cm_data_l :: "nat \<Rightarrow> 64 word"

datatype fatal = Exit int

section \<open>Command wrappers\<close>

definition nwm_move_window :: "Window \<Rightarrow> int \<Rightarrow> int \<Rightarrow> effect list" where
  "nwm_move_window win x y = [XMoveWindow win x y, XFlush]"

definition nwm_resize_window :: "Window \<Rightarrow> int \<Rightarrow> int \<Rightarrow> effect list" where
  "nwm_resize_window win width height = [XResizeWindow win width height, XFlush]"

text \<open>\<open>wc.sibling = above\<close> converts the \<open>int\<close> parameter (here \<open>above_sib\<close>) to the XID type.\<close>

definition nwm_configure_window ::
  "Window \<Rightarrow> int \<Rightarrow> int \<Rightarrow> int \<Rightarrow> int \<Rightarrow> int \<Rightarrow> int \<Rightarrow> int \<Rightarrow> int \<Rightarrow> effect list" where
  "nwm_configure_window win x y width height border_width above_sib detail value_mask =
     [XConfigureWindow win value_mask
        \<lparr>wc_x = x, wc_y = y, wc_width = width, wc_height = height,
         wc_border_width = border_width, wc_sibling = word_of_int above_sib,
         wc_stack_mode = detail\<rparr>]"

text \<open>The parameters \<open>above\<close>, \<open>detail\<close> and \<open>value_mask\<close> are not used by the body.\<close>

definition nwm_notify_window ::
  "Window \<Rightarrow> int \<Rightarrow> int \<Rightarrow> int \<Rightarrow> int \<Rightarrow> int \<Rightarrow> int \<Rightarrow> int \<Rightarrow> int \<Rightarrow> effect list" where
  "nwm_notify_window win x y width height border_width above_sib detail value_mask =
     [XSendEvent win False [StructureNotifyMask]
        \<lparr>ce_event = win, ce_window = win, ce_x = x, ce_y = y, ce_width = width,
         ce_height = height, ce_border_width = border_width, ce_above = None_xid,
         ce_override_redirect = False\<rparr>]"

section \<open>Windows\<close>

definition broken :: string where
  "broken = ''broken''"

text \<open>
  \<open>nwm_update_window\<close>. The three buffers \<open>name\<close>, \<open>klass\<close> and \<open>instance\<close> are
  uninitialised locals. \<open>gettextprop\<close> always leaves a text in \<open>name\<close>; \<open>klass\<close> and
  \<open>instance\<close> are written only inside \<open>if(XGetClassHint(...))\<close>, by
  \<open>strncpy(..., 256-1)\<close> and a terminator at index 255.
\<close>

definition nwm_update_window :: "xserver \<Rightarrow> Window \<Rightarrow> effect list" where
  "nwm_update_window srv win =
     (let NetWMName = atom_of srv ''_NET_WM_NAME'';
          name0 = (case gettextprop srv win NetWMName of
                     (ok, text) \<Rightarrow>
                       if \<not> ok then snd (gettextprop srv win XA_WM_NAME) else text);
          name = (if name0 = [] then broken else name0);
          klass = (case XGetClassHint srv win of
                     None \<Rightarrow> None
                   | Some (res_name, res_class) \<Rightarrow>
                       (case res_class of
                          Some c \<Rightarrow> Some (take 255 c)
                        | None \<Rightarrow> Some (take 255 broken)));
          instance = (case XGetClassHint srv win of
                        None \<Rightarrow> None
                      | Some (res_name, res_class) \<Rightarrow>
                          (case res_name of
                             Some n \<Rightarrow> Some (take 255 n)
                           | None \<Rightarrow> Some (take 255 broken)))
      in [XInternAtom ''_NET_WM_NAME'' False,
          Emit onUpdateWindow
            (Ev_window_title
               \<lparr>t_type = nwm_Windowtitle, t_id = win, t_title = Some name,
                t_instance = instance, t_klass = klass\<rparr>)])"

text \<open>
  \<open>nwm_add_window\<close>. \<open>trans\<close> starts as \<open>None\<close> and is overwritten when the hint is set.
  The line that would record the window in \<open>seen_windows\<close> is a comment in the source.
\<close>

definition nwm_add_window :: "xserver \<Rightarrow> Window \<Rightarrow> XWindowAttributes \<Rightarrow> effect list" where
  "nwm_add_window srv win wa =
     (let trans = (case XGetTransientForHint srv win of None \<Rightarrow> None_xid | Some t \<Rightarrow> t);
          isfloating = (trans \<noteq> None_xid);
          ce = \<lparr>ce_event = win, ce_window = win, ce_x = wa_x wa, ce_y = wa_y wa,
                ce_width = wa_width wa, ce_height = wa_height wa,
                ce_border_width = wa_border_width wa, ce_above = None_xid,
                ce_override_redirect = False\<rparr>
      in [Emit onAddWindow
            (Ev_window
               \<lparr>w_type = nwm_Window, w_id = win, w_x = Some (wa_x wa), w_y = Some (wa_y wa),
                w_height = Some (wa_height wa), w_width = Some (wa_width wa),
                w_isfloating = Some isfloating\<rparr>)]
         @ nwm_update_window srv win
         @ [XSendEvent win False [StructureNotifyMask] ce,
            XSelectInput win
              [EnterWindowMask, FocusChangeMask, PropertyChangeMask, StructureNotifyMask],
            grabButtons win False]
         @ (if isfloating then [XRaiseWindow win] else [])
         @ [XMoveResizeWindow win (ce_x ce) (ce_y ce) (ce_width ce) (ce_height ce),
            XMapWindow win])"

definition nwm_focus_window ::
  "xserver \<Rightarrow> nwm_state \<Rightarrow> Window \<Rightarrow> nwm_state \<times> effect list" where
  "nwm_focus_window srv st win =
     (st\<lparr>selected := win\<rparr>,
      [grabButtons win True,
       XSetInputFocus win RevertToPointerRoot CurrentTime,
       XInternAtom ''WM_TAKE_FOCUS'' False,
       SendEvent win (atom_of srv ''WM_TAKE_FOCUS''),
       XFlush])"

text \<open>\<open>nwm_remove_window\<close>: the payload has its \<open>type\<close> and \<open>id\<close> only.\<close>

definition nwm_remove_window ::
  "xserver \<Rightarrow> nwm_state \<Rightarrow> Window \<Rightarrow> bool \<Rightarrow> nwm_state \<times> effect list" where
  "nwm_remove_window srv st win destroyed =
     (case nwm_focus_window srv st (root st) of
        (st', focus_trace) \<Rightarrow>
          (st',
           [Emit onRemoveWindow
              (Ev_window
                 \<lparr>w_type = nwm_Window, w_id = win, w_x = None, w_y = None,
                  w_height = None, w_width = None, w_isfloating = None\<rparr>)]
           @ (if \<not> destroyed
              then [XGrabServer, XUngrabButton AnyButton AnyModifier win, XSync False,
                    XUngrabServer]
              else [])
           @ focus_trace
           @ [Emit onRearrange NULL]))"

text \<open>
  \<open>nwm_scan_windows\<close>: the two \<open>for\<close> loops over \<open>wins[0..num)\<close>, then the function.
\<close>

fun scan_windows_first_pass :: "xserver \<Rightarrow> Window list \<Rightarrow> effect list" where
  "scan_windows_first_pass srv [] = []"
| "scan_windows_first_pass srv (w # wins) =
     (case XGetWindowAttributes srv w of
        None \<Rightarrow> scan_windows_first_pass srv wins
      | Some watt \<Rightarrow>
          if wa_override_redirect watt \<or> XGetTransientForHint srv w \<noteq> None
          then scan_windows_first_pass srv wins
          else if wa_map_state watt = IsViewable
          then nwm_add_window srv w watt @ scan_windows_first_pass srv wins
          else scan_windows_first_pass srv wins)"

fun scan_windows_second_pass :: "xserver \<Rightarrow> Window list \<Rightarrow> effect list" where
  "scan_windows_second_pass srv [] = []"
| "scan_windows_second_pass srv (w # wins) =
     (case XGetWindowAttributes srv w of
        None \<Rightarrow> scan_windows_second_pass srv wins
      | Some watt \<Rightarrow>
          if XGetTransientForHint srv w \<noteq> None \<and> wa_map_state watt = IsViewable
          then nwm_add_window srv w watt @ scan_windows_second_pass srv wins
          else scan_windows_second_pass srv wins)"

definition nwm_scan_windows :: "xserver \<Rightarrow> nwm_state \<Rightarrow> effect list" where
  "nwm_scan_windows srv st =
     (case XQueryTree srv (root st) of
        None \<Rightarrow> []
      | Some wins \<Rightarrow> scan_windows_first_pass srv wins @ scan_windows_second_pass srv wins)"

section \<open>Key grabs\<close>

text \<open>The inner loop over \<open>modifiers[0..4)\<close> for one binding.\<close>

fun grab_key_modifiers :: "xserver \<Rightarrow> nwm_state \<Rightarrow> Key \<Rightarrow> modmask list \<Rightarrow> effect list" where
  "grab_key_modifiers srv st cur [] = []"
| "grab_key_modifiers srv st cur (m # ms) =
     XGrabKey (uint (XKeysymToKeycode srv (keysym cur))) (key_mod cur OR m) (root st)
       True GrabModeAsync GrabModeAsync
     # grab_key_modifiers srv st cur ms"

text \<open>The outer loop along the linked list of bindings.\<close>

fun grab_keys_loop :: "xserver \<Rightarrow> nwm_state \<Rightarrow> modmask list \<Rightarrow> Key list \<Rightarrow> effect list" where
  "grab_keys_loop srv st modifiers [] = []"
| "grab_keys_loop srv st modifiers (cur # nxt) =
     grab_key_modifiers srv st cur modifiers @ grab_keys_loop srv st modifiers nxt"

text \<open>
  \<open>nwm_grab_keys(dpy, root)\<close>: the parameter \<open>root\<close> (here \<open>root_arg\<close>) is not used, the
  requests go to \<open>nwm.root\<close>.
\<close>

definition nwm_grab_keys :: "xserver \<Rightarrow> Window \<Rightarrow> nwm_state \<Rightarrow> nwm_state \<times> effect list" where
  "nwm_grab_keys srv root_arg st =
     (let st1 = st\<lparr>numlockmask := updatenumlockmask srv\<rparr>;
          modifiers = [0, LockMask, numlockmask st1, numlockmask st1 OR LockMask]
      in (st1,
          XUngrabKey AnyKey AnyModifier (root st1)
          # grab_keys_loop srv st1 modifiers (keys st1)))"

text \<open>
  The passive key grabs this client holds, as the X protocol defines the two requests:
  \<open>XUngrabKey\<close> with \<open>AnyKey\<close> and \<open>AnyModifier\<close> releases every grab on the window,
  \<open>XGrabKey\<close> adds the combination of key code and modifiers.
\<close>

type_synonym key_grab = "Window \<times> int \<times> modmask"

fun grab_request :: "key_grab set \<Rightarrow> effect \<Rightarrow> key_grab set" where
  "grab_request g (XUngrabKey k m w) =
     (if k = AnyKey \<and> m = AnyModifier then {x \<in> g. fst x \<noteq> w} else g - {(w, k, m)})"
| "grab_request g (XGrabKey k m w owner_events pm km) = insert (w, k, m) g"
| "grab_request g _ = g"

definition grabs_after :: "key_grab set \<Rightarrow> effect list \<Rightarrow> key_grab set" where
  "grabs_after g trace = foldl grab_request g trace"

section \<open>Monitors\<close>

text \<open>
  \<open>nwm_update_selected_monitor\<close>: the payload is an \<open>nwm_monitor\<close> whose \<open>width\<close> and
  \<open>height\<close> are not assigned; \<open>id\<close> receives the number of the root XID.
\<close>

definition nwm_update_selected_monitor :: "xserver \<Rightarrow> nwm_state \<Rightarrow> effect list" where
  "nwm_update_selected_monitor srv st =
     (case getrootptr srv (root st) of
        Some (x, y) \<Rightarrow>
          [Emit onEnterNotify
             (Ev_monitor
                \<lparr>m_type = nwm_EnterNotify, m_id = uint (root st), m_x = Some x, m_y = Some y,
                 m_width = None, m_height = None\<rparr>)]
      | None \<Rightarrow> [])"

text \<open>
  Modelled from the spec: \<open>isuniquegeom\<close> is a helper of \<^verbatim>\<open>x11_misc.cc\<close>, which is not
  among the sources. The spec: a region is unique if no previously accepted region in
  this pass shares all four coordinates.
\<close>

fun isuniquegeom :: "XineramaScreenInfo list \<Rightarrow> XineramaScreenInfo \<Rightarrow> bool" where
  "isuniquegeom [] info = True"
| "isuniquegeom (u # unique) info =
     (if x_org u = x_org info \<and> y_org u = y_org info
         \<and> si_width u = si_width info \<and> si_height u = si_height info
      then False
      else isuniquegeom unique info)"

text \<open>
  The loop \<open>for(i = 0, j = 0; i < nn; i++)\<close> that copies the unique entries of \<open>info\<close>
  to \<open>unique[0..j)\<close>; the second argument is \<open>unique[0..j)\<close> so far.
\<close>

fun unique_geometries ::
  "XineramaScreenInfo list \<Rightarrow> XineramaScreenInfo list \<Rightarrow> XineramaScreenInfo list" where
  "unique_geometries [] unique = unique"
| "unique_geometries (info # infos) unique =
     (if isuniquegeom unique info
      then unique_geometries infos (unique @ [info])
      else unique_geometries infos unique)"

text \<open>The payload built at the head of the first reconciliation loop.\<close>

definition monitor_event_data :: "int \<Rightarrow> XineramaScreenInfo \<Rightarrow> nwm_monitor" where
  "monitor_event_data i u =
     \<lparr>m_type = nwm_Monitor, m_id = i, m_x = Some (x_org u), m_y = Some (y_org u),
      m_width = Some (si_width u), m_height = Some (si_height u)\<rparr>"

text \<open>
  The loop of the branch \<open>nwm.total_monitors <= nn\<close>: \<open>for(i = 0; i < nn; i++)\<close>, from
  the current \<open>i\<close> and \<open>nwm.total_monitors\<close>. It returns the calls made and the final
  \<open>nwm.total_monitors\<close>. The code reads \<open>unique[i]\<close> only for \<open>0 \<le> i < nn\<close>, where \<open>nn\<close>
  is the number of entries of \<open>unique\<close>.
\<close>

function scan_monitors_add_loop ::
  "XineramaScreenInfo list \<Rightarrow> int \<Rightarrow> int \<Rightarrow> int \<Rightarrow> effect list \<times> int" where
  "scan_monitors_add_loop unique nn i known =
     (if i < nn
      then (if i \<ge> known
            then (case scan_monitors_add_loop unique nn (i + 1) (known + 1) of
                    (trace, known') \<Rightarrow>
                      (Emit onAddMonitor (Ev_monitor (monitor_event_data i (unique ! nat i)))
                       # trace, known'))
            else (case scan_monitors_add_loop unique nn (i + 1) known of
                    (trace, known') \<Rightarrow>
                      (Emit onUpdateMonitor (Ev_monitor (monitor_event_data i (unique ! nat i)))
                       # trace, known')))
      else ([], known))"
  by pat_completeness auto
termination
  by (relation "measure (\<lambda>(unique, nn, i, known). nat (nn - i))") auto

text \<open>
  The loop of the branch with fewer monitors:
  \<open>for(i = nn; i < nwm.total_monitors; i++)\<close>, whose body decrements
  \<open>nwm.total_monitors\<close>, the bound of the loop. The payload has \<open>type\<close> and \<open>id\<close> only.
\<close>

function scan_monitors_remove_loop :: "int \<Rightarrow> int \<Rightarrow> effect list \<times> int" where
  "scan_monitors_remove_loop i known =
     (if i < known
      then (case scan_monitors_remove_loop (i + 1) (known - 1) of
              (trace, known') \<Rightarrow>
                (Emit onRemoveMonitor
                   (Ev_monitor
                      \<lparr>m_type = nwm_Monitor, m_id = i, m_x = None, m_y = None,
                       m_width = None, m_height = None\<rparr>)
                 # trace, known'))
      else ([], known))"
  by pat_completeness auto
termination
  by (relation "measure (\<lambda>(i, known). nat (known - i))") auto

text \<open>
  \<open>nwm_scan_monitors\<close>. A failed \<open>malloc\<close> ends the process with \<open>exit(-1)\<close>. The block
  is requested for the \<open>nn\<close> entries the extension returned, before \<open>nn\<close> becomes the
  number of unique entries.
\<close>

definition nwm_scan_monitors ::
  "xserver \<Rightarrow> nwm_state \<Rightarrow> fatal + nwm_state \<times> effect list" where
  "nwm_scan_monitors srv st =
     (if \<not> XineramaIsActive srv \<and> total_monitors st = 0
      then (let st1 = st\<lparr>total_monitors := total_monitors st + 1\<rparr>
            in Inr (st1,
                    Emit onAddMonitor
                      (Ev_monitor
                         \<lparr>m_type = nwm_Monitor, m_id = 0, m_x = Some 0, m_y = Some 0,
                          m_width = Some (screen_width st1),
                          m_height = Some (screen_height st1)\<rparr>)
                    # nwm_update_selected_monitor srv st1))
      else (let info = XineramaQueryScreens srv
            in if \<not> malloc_ok srv (length info)
               then Inl (Exit (- 1))
               else (let unique = unique_geometries info [];
                         nn = int (length unique)
                     in if total_monitors st \<le> nn
                        then (case scan_monitors_add_loop unique nn 0 (total_monitors st) of
                                (trace, known') \<Rightarrow>
                                  (let st1 = st\<lparr>total_monitors := known'\<rparr>
                                   in Inr (st1, trace @ nwm_update_selected_monitor srv st1)))
                        else (case scan_monitors_remove_loop nn (total_monitors st) of
                                (trace, known') \<Rightarrow>
                                  (let st1 = st\<lparr>total_monitors := known'\<rparr>
                                   in Inr (st1, trace @ nwm_update_selected_monitor srv st1))))))"

section \<open>Event handlers\<close>

text \<open>
  \<open>event_maprequest\<close>. The membership test is a comment in the source; \<open>found\<close> is
  initialised with \<open>True\<close> and never assigned again.
\<close>

definition event_maprequest ::
  "xserver \<Rightarrow> nwm_state \<Rightarrow> XMapRequestEvent \<Rightarrow> nwm_state \<times> effect list" where
  "event_maprequest srv st ev =
     (case XGetWindowAttributes srv (mr_window ev) of
        None \<Rightarrow> (st, [])
      | Some wa \<Rightarrow>
          if wa_override_redirect wa then (st, [])
          else (let found = True
                in if \<not> found
                   then (st, nwm_add_window srv (mr_window ev) wa @ [Emit onRearrange NULL])
                   else (st, [])))"

text \<open>
  \<open>event_clientmessage\<close>. Both atoms are interned before the test. The comparison of
  \<open>data.l[1]\<close> (a \<open>long\<close>) with the atom (an \<open>unsigned long\<close>) is one of 64-bit patterns.
\<close>

definition event_clientmessage ::
  "xserver \<Rightarrow> nwm_state \<Rightarrow> XClientMessageEvent \<Rightarrow> nwm_state \<times> effect list" where
  "event_clientmessage srv st cme =
     (let NetWMState = atom_of srv ''_NET_WM_STATE'';
          NetWMFullscreen = atom_of srv ''_NET_WM_STATE_FULLSCREEN''
      in (st,
          [XInternAtom ''_NET_WM_STATE'' False, XInternAtom ''_NET_WM_STATE_FULLSCREEN'' False]
          @ (if cm_message_type cme = NetWMState \<and> cm_data_l cme 1 = NetWMFullscreen
             then (if cm_data_l cme 0 \<noteq> 0
                   then [XChangeProperty (cm_window cme) NetWMState XA_ATOM 32 PropModeReplace
                           [NetWMFullscreen],
                         XRaiseWindow (cm_window cme),
                         Emit onFullscreen
                           (Ev_window_fullscreen
                              \<lparr>f_type = nwm_Window, f_id = cm_window cme, f_fullscreen = 1\<rparr>)]
                   else [XChangeProperty (cm_window cme) NetWMState XA_ATOM 32 PropModeReplace [],
                         Emit onFullscreen
                           (Ev_window_fullscreen
                              \<lparr>f_type = nwm_Window, f_id = cm_window cme, f_fullscreen = 0\<rparr>)])
             else [])))"

definition event_destroynotify ::
  "xserver \<Rightarrow> nwm_state \<Rightarrow> Window \<Rightarrow> nwm_state \<times> effect list" where
  "event_destroynotify srv st w = nwm_remove_window srv st w True"

definition event_unmapnotify ::
  "xserver \<Rightarrow> nwm_state \<Rightarrow> Window \<Rightarrow> nwm_state \<times> effect list" where
  "event_unmapnotify srv st w = nwm_remove_window srv st w False"

section \<open>Reading a trace\<close>

text \<open>Whether a trace ends with a flush of the connection.\<close>

fun ends_with_flush :: "effect list \<Rightarrow> bool" where
  "ends_with_flush [] = False"
| "ends_with_flush [e] = (e = XFlush)"
| "ends_with_flush (e # es) = ends_with_flush es"

fun is_flush :: "effect \<Rightarrow> bool" where
  "is_flush XFlush = True"
| "is_flush _ = False"

fun is_rearrange :: "effect \<Rightarrow> bool" where
  "is_rearrange (Emit onRearrange ev) = True"
| "is_rearrange _ = False"

fun is_monitor_event :: "effect \<Rightarrow> bool" where
  "is_monitor_event (Emit onAddMonitor ev) = True"
| "is_monitor_event (Emit onUpdateMonitor ev) = True"
| "is_monitor_event (Emit onRemoveMonitor ev) = True"
| "is_monitor_event _ = False"

definition monitor_events :: "effect list \<Rightarrow> effect list" where
  "monitor_events trace = filter is_monitor_event trace"

text \<open>The remove-monitor event of index \<open>i\<close>, as the second loop builds it.\<close>

definition remove_monitor_event :: "int \<Rightarrow> effect" where
  "remove_monitor_event i =
     Emit onRemoveMonitor
       (Ev_monitor
          \<lparr>m_type = nwm_Monitor, m_id = i, m_x = None, m_y = None, m_width = None,
           m_height = None\<rparr>)"

text \<open>The windows for which a trace emits an add-window event, in order.\<close>

fun added_windows :: "effect list \<Rightarrow> Window list" where
  "added_windows [] = []"
| "added_windows (Emit onAddWindow (Ev_window w) # es) = w_id w # added_windows es"
| "added_windows (e # es) = added_windows es"

text \<open>The four requests \<open>nwm_grab_keys\<close> makes for one binding.\<close>

definition binding_grabs :: "xserver \<Rightarrow> Window \<Rightarrow> Key \<Rightarrow> effect list" where
  "binding_grabs srv w k =
     map (\<lambda>m. XGrabKey (uint (XKeysymToKeycode srv (keysym k))) (key_mod k OR m) w
                 True GrabModeAsync GrabModeAsync)
       [0, LockMask, updatenumlockmask srv, updatenumlockmask srv OR LockMask]"

text \<open>The combinations a list of grab requests adds, and whether a call is a grab on \<open>w\<close>.\<close>

fun grab_entries :: "effect list \<Rightarrow> key_grab set" where
  "grab_entries [] = {}"
| "grab_entries (XGrabKey k m w oe pm km # es) = insert (w, k, m) (grab_entries es)"
| "grab_entries (e # es) = grab_entries es"

fun is_grab_on :: "Window \<Rightarrow> effect \<Rightarrow> bool" where
  "is_grab_on w (XGrabKey k m w' oe pm km) = (w' = w)"
| "is_grab_on w _ = False"

text \<open>The test each pass of \<open>nwm_scan_windows\<close> applies to a child before adding it.\<close>

definition first_pass_adds :: "xserver \<Rightarrow> Window \<Rightarrow> bool" where
  "first_pass_adds srv w =
     (case XGetWindowAttributes srv w of
        None \<Rightarrow> False
      | Some watt \<Rightarrow>
          \<not> wa_override_redirect watt \<and> XGetTransientForHint srv w = None
          \<and> wa_map_state watt = IsViewable)"

definition second_pass_adds :: "xserver \<Rightarrow> Window \<Rightarrow> bool" where
  "second_pass_adds srv w =
     (case XGetWindowAttributes srv w of
        None \<Rightarrow> False
      | Some watt \<Rightarrow> XGetTransientForHint srv w \<noteq> None \<and> wa_map_state watt = IsViewable)"

section \<open>Concrete inputs\<close>

text \<open>
  A server with root 1 and two children. Window 5 is a viewable override-redirect
  window that is transient for window 6; window 6 is a viewable ordinary window. No
  window has a name property or a class hint. Three screens of distinct geometry.
\<close>

definition plain_attributes :: XWindowAttributes where
  "plain_attributes =
     \<lparr>wa_x = 0, wa_y = 0, wa_width = 640, wa_height = 480, wa_border_width = 1,
      wa_map_state = IsViewable, wa_override_redirect = False\<rparr>"

definition screen_at :: "int \<Rightarrow> int \<Rightarrow> XineramaScreenInfo" where
  "screen_at n x =
     \<lparr>screen_number = n, x_org = x, y_org = 0, si_width = 1920, si_height = 1080\<rparr>"

definition example_server :: xserver where
  "example_server =
     \<lparr>XGetWindowAttributes =
        (\<lambda>w. if w = 5 then Some (plain_attributes\<lparr>wa_override_redirect := True\<rparr>)
             else if w = 6 then Some plain_attributes
             else None),
      XGetTransientForHint = (\<lambda>w. if w = 5 then Some 6 else None),
      XGetClassHint = (\<lambda>w. None),
      gettextprop = (\<lambda>w a. (False, [])),
      atom_of =
        (\<lambda>name. if name = ''_NET_WM_NAME'' then 300
                else if name = ''_NET_WM_STATE'' then 301
                else if name = ''_NET_WM_STATE_FULLSCREEN'' then 302
                else if name = ''WM_TAKE_FOCUS'' then 303
                else 304),
      XQueryTree = (\<lambda>w. if w = 1 then Some [5, 6] else None),
      XineramaIsActive = True,
      XineramaQueryScreens = [screen_at 0 0, screen_at 1 1920, screen_at 2 3840],
      getrootptr = (\<lambda>w. Some (10, 20)),
      XKeysymToKeycode = (\<lambda>k. ucast k),
      updatenumlockmask = 16,
      malloc_ok = (\<lambda>n. True)\<rparr>"

text \<open>The same server with a single screen, reported twice.\<close>

definition one_screen_server :: xserver where
  "one_screen_server =
     example_server\<lparr>XineramaQueryScreens := [screen_at 0 0, screen_at 1 0]\<rparr>"

text \<open>The same server with the multi-head extension inactive: the query yields no screen.\<close>

definition inactive_server :: xserver where
  "inactive_server = example_server\<lparr>XineramaIsActive := False, XineramaQueryScreens := []\<rparr>"

definition example_state :: nwm_state where
  "example_state =
     \<lparr>root = 1, screen_width = 1920, screen_height = 1080, total_monitors = 0,
      keys = [\<lparr>keysym = 65293, key_mod = 64\<rparr>, \<lparr>keysym = 106, key_mod = 65\<rparr>],
      numlockmask = 0, selected = 0\<rparr>"

text \<open>A fullscreen request for window 6 and a message of another type.\<close>

definition fullscreen_message :: XClientMessageEvent where
  "fullscreen_message =
     \<lparr>cm_window = 6, cm_message_type = 301,
      cm_data_l = (\<lambda>i. if i = 0 then 1 else if i = 1 then 302 else 0)\<rparr>"

definition other_message :: XClientMessageEvent where
  "other_message = fullscreen_message\<lparr>cm_message_type := 304\<rparr>"

section \<open>Properties\<close>

declare scan_monitors_add_loop.simps [simp del]
declare scan_monitors_remove_loop.simps [simp del]

subsection \<open>Map requests\<close>

text \<open>
  C1 (the code falls short of the claim). The claim: a map request for a managed window
  adds nothing, and a map request for a window that is not override-redirect, has
  readable attributes and is not yet managed adds the window and emits a rearrange
  event. In the source \<open>found\<close> is the constant \<open>True\<close>, so the handler never reaches
  \<open>nwm_add_window\<close>: for every server, state and event it makes no call at all and leaves
  the state as it was, also for window 6 of the example server, which is an ordinary
  window with readable attributes that nothing has added.
\<close>

theorem maprequest_never_adds:
  "event_maprequest srv st ev = (st, [])
   \<and> XGetWindowAttributes example_server 6 = Some plain_attributes
   \<and> wa_override_redirect plain_attributes = False
   \<and> event_maprequest example_server example_state \<lparr>mr_window = 6\<rparr> = (example_state, [])"
  by (simp add: event_maprequest_def example_server_def plain_attributes_def
      split: option.split)

subsection \<open>Window metadata\<close>

lemma update_window_title_never_empty:
  "\<exists>title inst kl. title \<noteq> [] \<and>
     nwm_update_window srv win =
       [XInternAtom ''_NET_WM_NAME'' False,
        Emit onUpdateWindow
          (Ev_window_title \<lparr>t_type = nwm_Windowtitle, t_id = win, t_title = Some title,
                            t_instance = inst, t_klass = kl\<rparr>)]"
  by (simp add: nwm_update_window_def Let_def broken_def split: prod.split)

lemma update_window_no_class_hint:
  "XGetClassHint srv win = None \<Longrightarrow>
   \<exists>title. nwm_update_window srv win =
       [XInternAtom ''_NET_WM_NAME'' False,
        Emit onUpdateWindow
          (Ev_window_title \<lparr>t_type = nwm_Windowtitle, t_id = win, t_title = Some title,
                            t_instance = None, t_klass = None\<rparr>)]"
  by (simp add: nwm_update_window_def Let_def)

text \<open>
  C3 (the code falls short of the claim). The claim: a window with no readable name and
  no class hint gets title, class and instance all equal to the placeholder
  \<open>''broken''\<close>. Window 6 of the example server has neither. The title of the emitted
  event is the placeholder, but \<open>klass\<close> and \<open>instance\<close> are never written: the
  fallback to \<open>broken\<close> stands inside \<open>if(XGetClassHint(...))\<close>, so the event points at
  two uninitialised buffers.
\<close>

theorem update_window_without_class_hint:
  "gettextprop example_server 6 (atom_of example_server ''_NET_WM_NAME'') = (False, [])
   \<and> gettextprop example_server 6 XA_WM_NAME = (False, [])
   \<and> XGetClassHint example_server 6 = None
   \<and> nwm_update_window example_server 6 =
       [XInternAtom ''_NET_WM_NAME'' False,
        Emit onUpdateWindow
          (Ev_window_title
             \<lparr>t_type = nwm_Windowtitle, t_id = 6, t_title = Some ''broken'',
              t_instance = None, t_klass = None\<rparr>)]"
  by (simp add: nwm_update_window_def example_server_def broken_def)

subsection \<open>Removing a window\<close>

text \<open>
  C6. For every window \<open>win\<close>, after \<open>nwm_remove_window(win, False)\<close> the selected window
  is the root window, and the call has emitted exactly one rearrange event.
\<close>

theorem remove_window_focuses_root_and_rearranges_once:
  "selected (fst (nwm_remove_window srv st win False)) = root st
   \<and> root (fst (nwm_remove_window srv st win False)) = root st
   \<and> length (filter is_rearrange (snd (nwm_remove_window srv st win False))) = 1"
  by (simp add: nwm_remove_window_def nwm_focus_window_def)

subsection \<open>The startup scan\<close>

lemma added_windows_append: "added_windows (xs @ ys) = added_windows xs @ added_windows ys"
  by (induction xs rule: added_windows.induct) simp_all

lemma added_windows_update: "added_windows (nwm_update_window srv w) = []"
  by (simp add: nwm_update_window_def Let_def)

lemma added_windows_add: "added_windows (nwm_add_window srv w wa) = [w]"
  by (simp add: nwm_add_window_def Let_def added_windows_append added_windows_update)

lemma first_pass_added:
  "added_windows (scan_windows_first_pass srv wins) = filter (first_pass_adds srv) wins"
  by (induction wins)
    (auto simp: first_pass_adds_def added_windows_append added_windows_add split: option.splits)

lemma second_pass_added:
  "added_windows (scan_windows_second_pass srv wins) = filter (second_pass_adds srv) wins"
  by (induction wins)
    (auto simp: second_pass_adds_def added_windows_append added_windows_add split: option.splits)

text \<open>
  What the scan adds, in order: the viewable children that are neither
  override-redirect nor transient, then the viewable transient children.
\<close>

lemma scan_windows_added:
  "XQueryTree srv (root st) = Some wins \<Longrightarrow>
   added_windows (nwm_scan_windows srv st)
     = filter (first_pass_adds srv) wins @ filter (second_pass_adds srv) wins"
  by (simp add: nwm_scan_windows_def added_windows_append first_pass_added second_pass_added)

text \<open>
  C7 (the code falls short of the claim). The claim: the startup scan never adds an
  override-redirect window, and every non-transient add precedes every transient add.
  The second loop tests the transient hint and the map state only. On the example
  server the root has the children 5 and 6; window 5 is override-redirect, viewable and
  transient for 6. The scan adds window 6 in the first pass and then window 5 in the
  second.
\<close>

theorem scan_windows_adds_override_redirect_transient:
  "XQueryTree example_server (root example_state) = Some [5, 6]
   \<and> map_option wa_override_redirect (XGetWindowAttributes example_server 5) = Some True
   \<and> XGetTransientForHint example_server 5 = Some 6
   \<and> added_windows (nwm_scan_windows example_server example_state) = [6, 5]"
  by (simp add: nwm_scan_windows_def example_server_def example_state_def nwm_add_window_def
      nwm_update_window_def plain_attributes_def None_xid_def)

subsection \<open>Command wrappers\<close>

text \<open>
  C8, as stated, fails at \<open>configure\<close> and at \<open>notify_configure\<close>:
  \<open>nwm_configure_window\<close> ends with \<open>XConfigureWindow\<close> and \<open>nwm_notify_window\<close> with
  \<open>XSendEvent\<close>; no flush follows either request.
\<close>

theorem configure_and_notify_do_not_flush:
  "\<not> ends_with_flush (nwm_configure_window 7 0 0 640 480 1 0 0 15)
   \<and> \<not> ends_with_flush (nwm_notify_window 7 0 0 640 480 1 0 0 15)"
  by (simp add: nwm_configure_window_def nwm_notify_window_def)

text \<open>
  C8, amended: \<open>move\<close> and \<open>resize\<close> issue their request and then flush the connection;
  \<open>configure\<close> issues exactly one \<open>XConfigureWindow\<close> request and \<open>notify_configure\<close>
  exactly one \<open>XSendEvent\<close> of a synthetic configure event to the window itself, and
  neither of the two flushes.
\<close>

theorem command_wrappers_requests:
  "nwm_move_window win x y = [XMoveWindow win x y, XFlush]
   \<and> nwm_resize_window win w h = [XResizeWindow win w h, XFlush]
   \<and> ends_with_flush (nwm_move_window win x y)
   \<and> ends_with_flush (nwm_resize_window win w h)
   \<and> (\<exists>wc. nwm_configure_window win x y w h b sib sm vm = [XConfigureWindow win vm wc])
   \<and> (\<exists>ce. nwm_notify_window win x y w h b sib sm vm
          = [XSendEvent win False [StructureNotifyMask] ce] \<and> ce_window ce = win)
   \<and> filter is_flush (nwm_configure_window win x y w h b sib sm vm) = []
   \<and> filter is_flush (nwm_notify_window win x y w h b sib sm vm) = []"
  by (simp add: nwm_move_window_def nwm_resize_window_def nwm_configure_window_def
      nwm_notify_window_def)

subsection \<open>Key grabs\<close>

lemma grab_key_modifiers_map:
  "grab_key_modifiers srv st k ms =
     map (\<lambda>m. XGrabKey (uint (XKeysymToKeycode srv (keysym k))) (key_mod k OR m) (root st)
                 True GrabModeAsync GrabModeAsync) ms"
  by (induction ms) simp_all

lemma grab_keys_loop_concat:
  "grab_keys_loop srv st ms ks = concat (map (\<lambda>k. grab_key_modifiers srv st k ms) ks)"
  by (induction ks) simp_all

lemma grab_keys_trace:
  "snd (nwm_grab_keys srv r st) =
     XUngrabKey AnyKey AnyModifier (root st) # concat (map (binding_grabs srv (root st)) (keys st))"
proof -
  have "grab_key_modifiers srv st' k
          [0, LockMask, updatenumlockmask srv, updatenumlockmask srv OR LockMask]
        = binding_grabs srv (root st') k" for st' k
    by (simp add: binding_grabs_def)
  then show ?thesis
    by (simp add: nwm_grab_keys_def Let_def grab_keys_loop_concat)
qed

lemma binding_grabs_count:
  "length (filter (is_grab_on w) (concat (map (binding_grabs srv w) ks))) = 4 * length ks"
  by (induction ks) (simp_all add: binding_grabs_def)

lemma binding_grabs_on: "e \<in> set (binding_grabs srv w k) \<Longrightarrow> is_grab_on w e"
  by (auto simp: binding_grabs_def)

lemma foldl_grabs:
  "\<forall>e\<in>set es. is_grab_on w e \<Longrightarrow> foldl grab_request g es = g \<union> grab_entries es"
proof (induction es arbitrary: g)
  case Nil
  then show ?case by simp
next
  case (Cons e es)
  then show ?case by (cases e) auto
qed

lemma grab_entries_on:
  "\<forall>e\<in>set es. is_grab_on w e \<Longrightarrow> x \<in> grab_entries es \<Longrightarrow> fst x = w"
proof (induction es)
  case Nil
  then show ?case by simp
next
  case (Cons e es)
  then show ?case by (cases e) auto
qed

text \<open>After a regrab the grabs on the window are the requested ones, whatever they were.\<close>

lemma regrab_grab_set:
  assumes "\<forall>e\<in>set es. is_grab_on w e"
  shows "grabs_after g (XUngrabKey AnyKey AnyModifier w # es)
           = {x \<in> g. fst x \<noteq> w} \<union> grab_entries es"
  using foldl_grabs[OF assms] by (simp add: grabs_after_def)

lemma regrab_twice:
  assumes "\<forall>e\<in>set es. is_grab_on w e"
  shows "grabs_after g
           ((XUngrabKey AnyKey AnyModifier w # es) @ (XUngrabKey AnyKey AnyModifier w # es))
         = grabs_after g (XUngrabKey AnyKey AnyModifier w # es)"
proof -
  let ?t = "XUngrabKey AnyKey AnyModifier w # es"
  have "grabs_after g (?t @ ?t) = grabs_after (grabs_after g ?t) ?t"
    by (simp add: grabs_after_def)
  also have "\<dots> = {x \<in> grabs_after g ?t. fst x \<noteq> w} \<union> grab_entries es"
    by (rule regrab_grab_set[OF assms])
  also have "{x \<in> grabs_after g ?t. fst x \<noteq> w} = {x \<in> g. fst x \<noteq> w}"
    using grab_entries_on[OF assms] by (auto simp: regrab_grab_set[OF assms])
  also have "{x \<in> g. fst x \<noteq> w} \<union> grab_entries es = grabs_after g ?t"
    by (simp add: regrab_grab_set[OF assms])
  finally show ?thesis .
qed

text \<open>
  C9. \<open>nwm_grab_keys\<close> first ungrabs every key on the root window and then, for every
  binding of the key table in turn, issues exactly four grab requests: the binding's
  modifier alone, with caps-lock, with numlock, and with both. A second call on the same
  server returns the state and the requests of the first, and the grab set after both
  calls is the grab set after the first, from any earlier grab set \<open>g\<close>.
\<close>

theorem grab_keys_idempotent:
  "snd (nwm_grab_keys srv r st)
     = XUngrabKey AnyKey AnyModifier (root st)
       # concat (map (binding_grabs srv (root st)) (keys st))
   \<and> binding_grabs srv (root st) k
     = [XGrabKey (uint (XKeysymToKeycode srv (keysym k))) (key_mod k) (root st)
          True GrabModeAsync GrabModeAsync,
        XGrabKey (uint (XKeysymToKeycode srv (keysym k))) (key_mod k OR LockMask) (root st)
          True GrabModeAsync GrabModeAsync,
        XGrabKey (uint (XKeysymToKeycode srv (keysym k))) (key_mod k OR updatenumlockmask srv)
          (root st) True GrabModeAsync GrabModeAsync,
        XGrabKey (uint (XKeysymToKeycode srv (keysym k)))
          (key_mod k OR (updatenumlockmask srv OR LockMask)) (root st)
          True GrabModeAsync GrabModeAsync]
   \<and> length (filter (is_grab_on (root st)) (snd (nwm_grab_keys srv r st)))
     = 4 * length (keys st)
   \<and> nwm_grab_keys srv r' (fst (nwm_grab_keys srv r st)) = nwm_grab_keys srv r st
   \<and> grabs_after g (snd (nwm_grab_keys srv r st)
                      @ snd (nwm_grab_keys srv r' (fst (nwm_grab_keys srv r st))))
     = grabs_after g (snd (nwm_grab_keys srv r st))"
proof -
  let ?es = "concat (map (binding_grabs srv (root st)) (keys st))"
  have on: "\<forall>e\<in>set ?es. is_grab_on (root st) e"
    by (auto dest: binding_grabs_on)
  have same: "nwm_grab_keys srv r' (fst (nwm_grab_keys srv r st)) = nwm_grab_keys srv r st"
    by (simp add: nwm_grab_keys_def Let_def)
  have len: "length (filter (is_grab_on (root st)) ?es) = 4 * length (keys st)"
    by (rule binding_grabs_count)
  have four: "binding_grabs srv (root st) k
     = [XGrabKey (uint (XKeysymToKeycode srv (keysym k))) (key_mod k) (root st)
          True GrabModeAsync GrabModeAsync,
        XGrabKey (uint (XKeysymToKeycode srv (keysym k))) (key_mod k OR LockMask) (root st)
          True GrabModeAsync GrabModeAsync,
        XGrabKey (uint (XKeysymToKeycode srv (keysym k))) (key_mod k OR updatenumlockmask srv)
          (root st) True GrabModeAsync GrabModeAsync,
        XGrabKey (uint (XKeysymToKeycode srv (keysym k)))
          (key_mod k OR (updatenumlockmask srv OR LockMask)) (root st)
          True GrabModeAsync GrabModeAsync]"
    by (simp add: binding_grabs_def)
  have twice: "grabs_after g (snd (nwm_grab_keys srv r st)
                      @ snd (nwm_grab_keys srv r' (fst (nwm_grab_keys srv r st))))
     = grabs_after g (snd (nwm_grab_keys srv r st))"
    unfolding same grab_keys_trace by (rule regrab_twice[OF on])
  have count: "length (filter (is_grab_on (root st)) (snd (nwm_grab_keys srv r st)))
     = 4 * length (keys st)"
    unfolding grab_keys_trace using len by (simp add: AnyKey_def)
  from grab_keys_trace four count same twice show ?thesis
    by blast
qed

subsection \<open>Monitor rescans\<close>

lemma update_selected_no_monitor_event:
  "monitor_events (nwm_update_selected_monitor srv st) = []"
  by (simp add: monitor_events_def nwm_update_selected_monitor_def split: option.split)

lemma monitor_events_append:
  "monitor_events (xs @ ys) = monitor_events xs @ monitor_events ys"
  by (simp add: monitor_events_def)

text \<open>
  The second loop from index \<open>i\<close> with \<open>known\<close> monitors: each pass removes index \<open>i\<close>,
  moves \<open>i\<close> up and the bound down, so the loop stops when the two meet.
\<close>

lemma remove_loop_events:
  "scan_monitors_remove_loop i known =
     (map remove_monitor_event [i .. i + (known - i + 1) div 2 - 1],
      known - max 0 ((known - i + 1) div 2))"
proof (induction i known rule: scan_monitors_remove_loop.induct)
  case (1 i known)
  show ?case
  proof (cases "i < known")
    case True
    define k where "k = (known - i + 1) div 2"
    have k': "(known - 1 - (i + 1) + 1) div 2 = k - 1"
      unfolding k_def by presburger
    have pos: "1 \<le> k"
      unfolding k_def using True by presburger
    have ih: "scan_monitors_remove_loop (i + 1) (known - 1) =
                (map remove_monitor_event [i + 1 .. i + k - 1], known - k)"
      using 1[OF True] pos unfolding k' by (simp add: max_def add.commute add.left_commute)
    have split: "[i .. i + k - 1] = i # [i + 1 .. i + k - 1]"
      using pos by (subst upto_rec1) auto
    have "scan_monitors_remove_loop i known =
            (remove_monitor_event i # map remove_monitor_event [i + 1 .. i + k - 1], known - k)"
      using True
      by (subst scan_monitors_remove_loop.simps) (simp add: ih remove_monitor_event_def)
    then show ?thesis
      using pos split unfolding k_def by (simp add: max_def)
  next
    case False
    then have "(known - i + 1) div 2 \<le> 0" by presburger
    with False show ?thesis
      by (subst scan_monitors_remove_loop.simps) simp
  qed
qed

lemma monitor_events_remove_trace:
  "monitor_events (map remove_monitor_event ks @ nwm_update_selected_monitor srv s)
     = map remove_monitor_event ks"
  by (induction ks)
    (simp_all add: monitor_events_def remove_monitor_event_def
      update_selected_no_monitor_event[unfolded monitor_events_def])

text \<open>
  C2, as stated, fails. The server reports one unique geometry and three monitors are
  known: the rescan emits one remove-monitor event, for index 1, and leaves the known
  count at 2; the claim has two events, for indices 2 then 1, and a count of 1.
\<close>

theorem scan_monitors_three_to_one:
  "length (unique_geometries (XineramaQueryScreens one_screen_server) []) = 1
   \<and> total_monitors (example_state\<lparr>total_monitors := 3\<rparr>) = 3
   \<and> nwm_scan_monitors one_screen_server (example_state\<lparr>total_monitors := 3\<rparr>) =
       Inr (example_state\<lparr>total_monitors := 2\<rparr>,
            [remove_monitor_event 1,
             Emit onEnterNotify
               (Ev_monitor
                  \<lparr>m_type = nwm_EnterNotify, m_id = 1, m_x = Some 10, m_y = Some 20,
                   m_width = None, m_height = None\<rparr>)])
   \<and> monitor_events
         [remove_monitor_event 1,
          Emit onEnterNotify
            (Ev_monitor
               \<lparr>m_type = nwm_EnterNotify, m_id = 1, m_x = Some 10, m_y = Some 20,
                m_width = None, m_height = None\<rparr>)]
       = [remove_monitor_event 1]
   \<and> [remove_monitor_event 1] \<noteq> [remove_monitor_event 2, remove_monitor_event 1]"
  by (simp add: one_screen_server_def example_server_def example_state_def screen_at_def
      nwm_scan_monitors_def Let_def remove_monitor_event_def nwm_update_selected_monitor_def
      monitor_events_def scan_monitors_remove_loop.simps)

text \<open>
  C2, amended. With three monitors known and one unique geometry found (and the block
  for the unique entries allocated), the rescan emits remove-monitor events only, at
  least one and at most two, for consecutive indices going up from the new count 1; it
  emits no add or update event; and the known count afterwards is 3 less the number of
  remove events emitted.
\<close>

theorem scan_monitors_shrink_walks_upward:
  assumes "total_monitors st = 3"
    and "length (unique_geometries (XineramaQueryScreens srv) []) = 1"
    and "malloc_ok srv (length (XineramaQueryScreens srv))"
  shows "\<exists>k. 1 \<le> k \<and> k \<le> 2 \<and>
           nwm_scan_monitors srv st =
             Inr (st\<lparr>total_monitors := 3 - k\<rparr>,
                  map remove_monitor_event [1 .. k]
                  @ nwm_update_selected_monitor srv (st\<lparr>total_monitors := 3 - k\<rparr>))
           \<and> monitor_events
                (map remove_monitor_event [1 .. k]
                 @ nwm_update_selected_monitor srv (st\<lparr>total_monitors := 3 - k\<rparr>))
              = map remove_monitor_event [1 .. k]"
proof -
  have run: "nwm_scan_monitors srv st =
          Inr (st\<lparr>total_monitors := 3 - 1\<rparr>,
               map remove_monitor_event [1 .. 1]
               @ nwm_update_selected_monitor srv (st\<lparr>total_monitors := 3 - 1\<rparr>))"
    using assms by (simp add: nwm_scan_monitors_def Let_def remove_loop_events)
  have only: "monitor_events
                (map remove_monitor_event [1 .. 1]
                 @ nwm_update_selected_monitor srv (st\<lparr>total_monitors := 3 - 1\<rparr>))
              = map remove_monitor_event [1 .. 1]"
    by (rule monitor_events_remove_trace)
  from run only show ?thesis
    by (intro exI[of _ 1]) simp
qed

text \<open>
  The amended C2 at the server with one unique geometry and three monitors known.
\<close>

theorem scan_monitors_shrink_walks_upward_witness:
  "total_monitors (example_state\<lparr>total_monitors := 3\<rparr>) = 3
   \<and> length (unique_geometries (XineramaQueryScreens one_screen_server) []) = 1
   \<and> malloc_ok one_screen_server (length (XineramaQueryScreens one_screen_server))
   \<and> (\<exists>k. 1 \<le> k \<and> k \<le> 2 \<and>
          nwm_scan_monitors one_screen_server (example_state\<lparr>total_monitors := 3\<rparr>) =
            Inr (example_state\<lparr>total_monitors := 3 - k\<rparr>,
                 map remove_monitor_event [1 .. k]
                 @ nwm_update_selected_monitor one_screen_server
                     (example_state\<lparr>total_monitors := 3 - k\<rparr>))
          \<and> monitor_events
               (map remove_monitor_event [1 .. k]
                @ nwm_update_selected_monitor one_screen_server
                    (example_state\<lparr>total_monitors := 3 - k\<rparr>))
             = map remove_monitor_event [1 .. k])"
proof -
  have known: "total_monitors (example_state\<lparr>total_monitors := 3\<rparr>) = 3"
    by simp
  have uniq: "length (unique_geometries (XineramaQueryScreens one_screen_server) []) = 1"
    by (simp add: one_screen_server_def example_server_def screen_at_def)
  have mem: "malloc_ok one_screen_server (length (XineramaQueryScreens one_screen_server))"
    by (simp add: one_screen_server_def example_server_def)
  have st: "example_state\<lparr>total_monitors := 3, total_monitors := n\<rparr>
              = example_state\<lparr>total_monitors := n\<rparr>" for n
    by simp
  from scan_monitors_shrink_walks_upward[OF known uniq mem] known uniq mem show ?thesis
    unfolding st by blast
qed

text \<open>
  C4. With one monitor known and three unique geometries found (and the block for the
  unique entries allocated), the rescan emits exactly three monitor events, in this
  order: an update-monitor event with index 0, an add-monitor event with index 1 and an
  add-monitor event with index 2, each carrying the geometry of the unique entry of its
  index. The only call after them is the enter-notify of the selected monitor, which is
  no monitor event. The known count afterwards is 3.
\<close>

theorem scan_monitors_one_to_three:
  assumes "total_monitors st = 1"
    and "length (unique_geometries (XineramaQueryScreens srv) []) = 3"
    and "malloc_ok srv (length (XineramaQueryScreens srv))"
  shows "nwm_scan_monitors srv st =
           Inr (st\<lparr>total_monitors := 3\<rparr>,
                [Emit onUpdateMonitor
                   (Ev_monitor
                      \<lparr>m_type = nwm_Monitor, m_id = 0,
                       m_x = Some (x_org (unique_geometries (XineramaQueryScreens srv) [] ! 0)),
                       m_y = Some (y_org (unique_geometries (XineramaQueryScreens srv) [] ! 0)),
                       m_width =
                         Some (si_width (unique_geometries (XineramaQueryScreens srv) [] ! 0)),
                       m_height =
                         Some (si_height (unique_geometries (XineramaQueryScreens srv) [] ! 0))\<rparr>),
                 Emit onAddMonitor
                   (Ev_monitor
                      \<lparr>m_type = nwm_Monitor, m_id = 1,
                       m_x = Some (x_org (unique_geometries (XineramaQueryScreens srv) [] ! 1)),
                       m_y = Some (y_org (unique_geometries (XineramaQueryScreens srv) [] ! 1)),
                       m_width =
                         Some (si_width (unique_geometries (XineramaQueryScreens srv) [] ! 1)),
                       m_height =
                         Some (si_height (unique_geometries (XineramaQueryScreens srv) [] ! 1))\<rparr>),
                 Emit onAddMonitor
                   (Ev_monitor
                      \<lparr>m_type = nwm_Monitor, m_id = 2,
                       m_x = Some (x_org (unique_geometries (XineramaQueryScreens srv) [] ! 2)),
                       m_y = Some (y_org (unique_geometries (XineramaQueryScreens srv) [] ! 2)),
                       m_width =
                         Some (si_width (unique_geometries (XineramaQueryScreens srv) [] ! 2)),
                       m_height =
                         Some (si_height (unique_geometries (XineramaQueryScreens srv) [] ! 2))\<rparr>)]
                @ nwm_update_selected_monitor srv (st\<lparr>total_monitors := 3\<rparr>))
         \<and> filter is_monitor_event
               (nwm_update_selected_monitor srv (st\<lparr>total_monitors := 3\<rparr>)) = []"
proof -
  let ?u = "unique_geometries (XineramaQueryScreens srv) []"
  have l3: "scan_monitors_add_loop ?u 3 3 3 = ([], 3)"
    by (subst scan_monitors_add_loop.simps) simp
  have l2: "scan_monitors_add_loop ?u 3 2 2 =
              ([Emit onAddMonitor (Ev_monitor (monitor_event_data 2 (?u ! 2)))], 3)"
    by (subst scan_monitors_add_loop.simps) (simp add: l3)
  have l1: "scan_monitors_add_loop ?u 3 1 1 =
              ([Emit onAddMonitor (Ev_monitor (monitor_event_data 1 (?u ! 1))),
                Emit onAddMonitor (Ev_monitor (monitor_event_data 2 (?u ! 2)))], 3)"
    by (subst scan_monitors_add_loop.simps) (simp add: l2)
  have l0: "scan_monitors_add_loop ?u 3 0 1 =
              ([Emit onUpdateMonitor (Ev_monitor (monitor_event_data 0 (?u ! 0))),
                Emit onAddMonitor (Ev_monitor (monitor_event_data 1 (?u ! 1))),
                Emit onAddMonitor (Ev_monitor (monitor_event_data 2 (?u ! 2)))], 3)"
    by (subst scan_monitors_add_loop.simps) (simp add: l1)
  have quiet: "filter is_monitor_event
                 (nwm_update_selected_monitor srv (st\<lparr>total_monitors := 3\<rparr>)) = []"
    by (simp add: nwm_update_selected_monitor_def split: option.split)
  from assms l0 quiet show ?thesis
    by (simp add: nwm_scan_monitors_def Let_def monitor_event_data_def)
qed

text \<open>
  C4 at the example server, whose three screens have distinct geometries (at x = 0, 1920
  and 3840), with one monitor known.
\<close>

theorem scan_monitors_one_to_three_witness:
  "total_monitors (example_state\<lparr>total_monitors := 1\<rparr>) = 1
   \<and> length (unique_geometries (XineramaQueryScreens example_server) []) = 3
   \<and> malloc_ok example_server (length (XineramaQueryScreens example_server))
   \<and> nwm_scan_monitors example_server (example_state\<lparr>total_monitors := 1\<rparr>) =
       Inr (example_state\<lparr>total_monitors := 3\<rparr>,
            [Emit onUpdateMonitor
               (Ev_monitor
                  \<lparr>m_type = nwm_Monitor, m_id = 0, m_x = Some 0, m_y = Some 0,
                   m_width = Some 1920, m_height = Some 1080\<rparr>),
             Emit onAddMonitor
               (Ev_monitor
                  \<lparr>m_type = nwm_Monitor, m_id = 1, m_x = Some 1920, m_y = Some 0,
                   m_width = Some 1920, m_height = Some 1080\<rparr>),
             Emit onAddMonitor
               (Ev_monitor
                  \<lparr>m_type = nwm_Monitor, m_id = 2, m_x = Some 3840, m_y = Some 0,
                   m_width = Some 1920, m_height = Some 1080\<rparr>),
             Emit onEnterNotify
               (Ev_monitor
                  \<lparr>m_type = nwm_EnterNotify, m_id = 1, m_x = Some 10, m_y = Some 20,
                   m_width = None, m_height = None\<rparr>)])"
proof -
  have known: "total_monitors (example_state\<lparr>total_monitors := 1\<rparr>) = 1"
    by simp
  have u: "unique_geometries (XineramaQueryScreens example_server) []
             = [screen_at 0 0, screen_at 1 1920, screen_at 2 3840]"
    by (simp add: example_server_def screen_at_def)
  have uniq: "length (unique_geometries (XineramaQueryScreens example_server) []) = 3"
    by (simp add: u)
  have mem: "malloc_ok example_server (length (XineramaQueryScreens example_server))"
    by (simp add: example_server_def)
  have ptr: "nwm_update_selected_monitor example_server (example_state\<lparr>total_monitors := 3\<rparr>)
      = [Emit onEnterNotify
           (Ev_monitor
              \<lparr>m_type = nwm_EnterNotify, m_id = 1, m_x = Some 10, m_y = Some 20,
               m_width = None, m_height = None\<rparr>)]"
    by (simp add: nwm_update_selected_monitor_def example_server_def example_state_def)
  from scan_monitors_one_to_three[OF known uniq mem] known uniq mem show ?thesis
    by (simp add: u ptr screen_at_def)
qed

lemma scan_monitors_first_inactive:
  "\<not> XineramaIsActive srv \<Longrightarrow> total_monitors st = 0 \<Longrightarrow>
   nwm_scan_monitors srv st =
     Inr (st\<lparr>total_monitors := 1\<rparr>,
          Emit onAddMonitor
            (Ev_monitor \<lparr>m_type = nwm_Monitor, m_id = 0, m_x = Some 0, m_y = Some 0,
                         m_width = Some (screen_width st), m_height = Some (screen_height st)\<rparr>)
          # nwm_update_selected_monitor srv (st\<lparr>total_monitors := 1\<rparr>))"
  by (simp add: nwm_scan_monitors_def Let_def)

text \<open>
  With one monitor known, a rescan that returns has emitted a monitor event, whether or
  not the extension is active and whatever the query yields.
\<close>

lemma scan_monitors_known_monitor_not_silent:
  assumes known: "total_monitors st = 1"
    and ret: "nwm_scan_monitors srv st = Inr (st', trace)"
  shows "monitor_events trace \<noteq> []"
proof (cases "unique_geometries (XineramaQueryScreens srv) []")
  case Nil
  have loop: "scan_monitors_remove_loop 0 1 = ([remove_monitor_event 0], 0)"
    by (simp add: scan_monitors_remove_loop.simps[of 0 1] scan_monitors_remove_loop.simps[of 1 0]
        remove_monitor_event_def)
  from ret known Nil show ?thesis
    by (auto simp: nwm_scan_monitors_def Let_def loop monitor_events_append
        update_selected_no_monitor_event split: if_splits)
      (simp add: monitor_events_def remove_monitor_event_def)
next
  case (Cons u us)
  obtain tr k where rest: "scan_monitors_add_loop (u # us) (1 + int (length us)) 1 1 = (tr, k)"
    by (cases "scan_monitors_add_loop (u # us) (1 + int (length us)) 1 1")
  have loop: "scan_monitors_add_loop (u # us) (1 + int (length us)) 0 1 =
                (Emit onUpdateMonitor (Ev_monitor (monitor_event_data 0 u)) # tr, k)"
    using rest by (subst scan_monitors_add_loop.simps) simp
  from ret known Cons show ?thesis
    by (auto simp: nwm_scan_monitors_def Let_def loop monitor_events_append
        split: if_splits)
      (simp add: monitor_events_def)
qed

text \<open>
  C5 (the code falls short of the claim). The claim: with the extension inactive, the
  first rescan registers one synthetic monitor of index 0 with the bounds of the screen
  and emits one add-monitor event, and every later rescan emits no monitor event and
  leaves the count as it is. The first half holds. The test of the first branch is
  \<open>!XineramaIsActive(...) && nwm.total_monitors == 0\<close>, so the second rescan, with one
  monitor known, runs the reconciliation against the extension's empty answer: it emits
  a remove-monitor event for index 0 and sets the count to 0.
\<close>

theorem scan_monitors_inactive_rescans:
  "XineramaIsActive inactive_server = False
   \<and> nwm_scan_monitors inactive_server example_state =
       Inr (example_state\<lparr>total_monitors := 1\<rparr>,
            [Emit onAddMonitor
               (Ev_monitor
                  \<lparr>m_type = nwm_Monitor, m_id = 0, m_x = Some 0, m_y = Some 0,
                   m_width = Some 1920, m_height = Some 1080\<rparr>),
             Emit onEnterNotify
               (Ev_monitor
                  \<lparr>m_type = nwm_EnterNotify, m_id = 1, m_x = Some 10, m_y = Some 20,
                   m_width = None, m_height = None\<rparr>)])
   \<and> nwm_scan_monitors inactive_server (example_state\<lparr>total_monitors := 1\<rparr>) =
       Inr (example_state\<lparr>total_monitors := 0\<rparr>,
            [remove_monitor_event 0,
             Emit onEnterNotify
               (Ev_monitor
                  \<lparr>m_type = nwm_EnterNotify, m_id = 1, m_x = Some 10, m_y = Some 20,
                   m_width = None, m_height = None\<rparr>)])"
  by (simp add: inactive_server_def example_server_def example_state_def
      nwm_scan_monitors_def Let_def remove_monitor_event_def nwm_update_selected_monitor_def
      scan_monitors_remove_loop.simps)

subsection \<open>Client messages\<close>

text \<open>
  C10. A client message whose type is not \<open>_NET_WM_STATE\<close>, or whose second data word is
  not the fullscreen atom, leaves the state as it is and makes no call but the two atom
  lookups that precede the test: no event is emitted, no property is changed and no
  window is raised. A fullscreen-state message changes the property (to the fullscreen
  atom when the first data word is non-zero, to the empty list otherwise), raises the
  window exactly when the first data word is non-zero, and emits the fullscreen event.
\<close>

theorem clientmessage_only_fullscreen_acts:
  "(cm_message_type cme \<noteq> atom_of srv ''_NET_WM_STATE''
      \<or> cm_data_l cme 1 \<noteq> atom_of srv ''_NET_WM_STATE_FULLSCREEN''
    \<longrightarrow> event_clientmessage srv st cme =
          (st, [XInternAtom ''_NET_WM_STATE'' False,
                XInternAtom ''_NET_WM_STATE_FULLSCREEN'' False]))
   \<and> (cm_message_type cme = atom_of srv ''_NET_WM_STATE''
      \<and> cm_data_l cme 1 = atom_of srv ''_NET_WM_STATE_FULLSCREEN''
    \<longrightarrow> event_clientmessage srv st cme =
          (st, [XInternAtom ''_NET_WM_STATE'' False,
                XInternAtom ''_NET_WM_STATE_FULLSCREEN'' False,
                XChangeProperty (cm_window cme) (atom_of srv ''_NET_WM_STATE'') XA_ATOM 32
                  PropModeReplace
                  (if cm_data_l cme 0 \<noteq> 0 then [atom_of srv ''_NET_WM_STATE_FULLSCREEN'']
                   else [])]
               @ (if cm_data_l cme 0 \<noteq> 0 then [XRaiseWindow (cm_window cme)] else [])
               @ [Emit onFullscreen
                    (Ev_window_fullscreen
                       \<lparr>f_type = nwm_Window, f_id = cm_window cme,
                        f_fullscreen = (if cm_data_l cme 0 \<noteq> 0 then 1 else 0)\<rparr>)]))"
  by (simp add: event_clientmessage_def Let_def)

text \<open>
  C10 at the example server: a message of another type, and a request to make window 6
  fullscreen.
\<close>

theorem clientmessage_only_fullscreen_acts_witness:
  "cm_message_type other_message \<noteq> atom_of example_server ''_NET_WM_STATE''
   \<and> event_clientmessage example_server example_state other_message =
       (example_state,
        [XInternAtom ''_NET_WM_STATE'' False, XInternAtom ''_NET_WM_STATE_FULLSCREEN'' False])
   \<and> cm_message_type fullscreen_message = atom_of example_server ''_NET_WM_STATE''
   \<and> cm_data_l fullscreen_message 1 = atom_of example_server ''_NET_WM_STATE_FULLSCREEN''
   \<and> event_clientmessage example_server example_state fullscreen_message =
       (example_state,
        [XInternAtom ''_NET_WM_STATE'' False, XInternAtom ''_NET_WM_STATE_FULLSCREEN'' False,
         XChangeProperty 6 301 XA_ATOM 32 PropModeReplace [302],
         XRaiseWindow 6,
         Emit onFullscreen
           (Ev_window_fullscreen \<lparr>f_type = nwm_Window, f_id = 6, f_fullscreen = 1\<rparr>)])"
proof -
  have other: "cm_message_type other_message \<noteq> atom_of example_server ''_NET_WM_STATE''"
    by (simp add: other_message_def fullscreen_message_def example_server_def)
  have full: "cm_message_type fullscreen_message = atom_of example_server ''_NET_WM_STATE''
      \<and> cm_data_l fullscreen_message 1 = atom_of example_server ''_NET_WM_STATE_FULLSCREEN''"
    by (simp add: fullscreen_message_def example_server_def)
  have vals: "cm_window fullscreen_message = 6" "cm_data_l fullscreen_message 0 = 1"
    "atom_of example_server ''_NET_WM_STATE'' = 301"
    "atom_of example_server ''_NET_WM_STATE_FULLSCREEN'' = 302"
    by (simp_all add: fullscreen_message_def example_server_def)
  from clientmessage_only_fullscreen_acts[of other_message example_server example_state]
    clientmessage_only_fullscreen_acts[of fullscreen_message example_server example_state]
    other full
  show ?thesis
    by (simp add: vals)
qed

end
